theory Spec2Isabelle
  imports Main "HOL-Library.Sublist"
begin

section \<open>The chat of twinny: the view \<open>src/webview/chat.tsx\<close> and the service \<open>Chat\<close>\<close>

text \<open>
  Two programs are embedded. The view is the React component \<open>Chat\<close> of
  \<open>src/webview/chat.tsx\<close>; the service is the class \<open>Chat\<close> of the extension host,
  which streams a completion and posts the events the view handles.

  The component \<open>Chat\<close> keeps its state in React state cells (\<open>useState\<close>) and in
  mutable refs (\<open>useRef\<close>), and talks to the outside through three channels:
  \<open>global.vscode.postMessage\<close> (requests to the extension host), the hook
  \<open>useConversationHistory\<close> (\<open>saveLastConversation\<close>, \<open>setActiveConversation\<close>)
  and \<open>setTimeout\<close>. The embedding makes all of it one record that every handler
  takes and returns: the cells and refs as fields, the three channels as the lists of
  the calls made so far, oldest first.

  Conventions of the embedding.
  \<^item> A JavaScript string is a \<open>string\<close>: one \<open>char\<close> per code unit, so code units
    above U+00FF are outside the model. The only operation below that looks at them
    is the white space of \<open>trim\<close>.
  \<^item> A state updater passed to \<open>setMessages\<close> is applied once, at the place of the
    call, to the current value of the cell.
  \<^item> Scrolling and focus (\<open>scrollToBottom\<close>, \<open>chatRef.current?.focus()\<close>,
    \<open>commands.focus()\<close>) touch the DOM only and change no field.
  \<^item> The value \<open>conversation\<close> of the hook is read only; it is the parameter
    \<open>conv\<close> of the handlers that use it.
  \<^item> A handler that throws has changed the refs it assigned before the throw; its
    result is the error together with the state it leaves.
\<close>

subsection \<open>Values\<close>

text \<open>A cell or field that holds \<open>undefined\<close>, \<open>null\<close> or a value.\<close>

datatype 'a nullable = Undefined | Null | Val 'a

text \<open>
  \<open>ChatCompletionMessage\<close> (declared in \<open>common/types\<close>): the fields the view reads
  and writes. \<open>msg_id\<close> is the optional field \<open>id\<close>.
\<close>

record message =
  role :: string
  content :: string
  msg_id :: "string option"

text \<open>
  \<open>MentionType\<close>: \<open>{ name, path }\<close>. The path is the \<open>id\<close> attribute of a mention node as
  it is, which tiptap leaves \<open>null\<close> when the node was made without one.
\<close>

record mention =
  name :: string
  path :: "string nullable"

text \<open>
  The conversation of \<open>useConversationHistory\<close>. The view reads \<open>title\<close>, \<open>id\<close> and
  \<open>messages\<close> of it, each optional.
\<close>

record conversation =
  conv_id :: "string option"
  title :: "string option"
  conv_messages :: "message list option"

text \<open>
  Modelled from the spec: the constant \<open>USER\<close> of \<open>common/constants\<close>, which is not
  among the sources; the data model of the spec names the role \<open>user\<close>.
\<close>

definition USER :: string where
  "USER = ''user''"


text \<open>Truthiness of an optional string: present and not empty.\<close>

fun truthy :: "string option \<Rightarrow> bool" where
  "truthy None = False"
| "truthy (Some s) = (s \<noteq> [])"

subsection \<open>The editor\<close>

text \<open>
  \<open>JSONContent\<close> of tiptap: a node has an optional type, optional attributes and an
  optional array of child nodes. Of the attributes the view reads \<open>label\<close> and \<open>id\<close>:
  the label is an optional string, the id a string, \<open>null\<close> (the default of tiptap's
  mention node) or \<open>undefined\<close>.
\<close>

record attrs =
  label :: "string option"
  attr_id :: "string nullable"

datatype node =
  Node (node_type: "string option") (node_attrs: "attrs option") (node_content: "node list option")

text \<open>
  What the view observes of the tiptap editor: the result of \<open>getText()\<close> and the
  field \<open>content\<close> of \<open>getJSON()\<close>.
\<close>

record editor =
  editor_text :: string
  editor_content :: "node list option"

text \<open>
  \<open>commands.clearContent()\<close> leaves the empty document: no text, and one paragraph
  without children.
\<close>

definition clearContent :: "editor \<Rightarrow> editor" where
  "clearContent ed = \<lparr>editor_text = [], editor_content = Some [Node (Some ''paragraph'') None None]\<rparr>"

subsection \<open>The channels\<close>

text \<open>
  \<open>ClientMessage\<close>, as posted with \<open>global.vscode.postMessage\<close> by the handlers below:
  a chat message request with its \<open>data\<close> and its optional \<open>meta\<close>, and the stop
  request.
\<close>

datatype client_message =
  ChatMessage "message list" "mention list option"
| StopGenerationRequest

text \<open>What a handler can throw.\<close>

datatype error = TypeError

datatype hook_call =
  SaveLastConversation conversation
| SetActiveConversation "conversation option"

text \<open>The callbacks handed to \<open>setTimeout\<close>, with their delay in milliseconds.\<close>

datatype timer_action = FocusEditorAndResetStop | ResetStop | FocusChat

record timer =
  delay :: nat
  action :: timer_action

text \<open>
  \<open>ServerMessage\<close>, by its \<open>type\<close>. The two events that carry a message have a
  \<open>data\<close> field that may be absent. \<open>OtherEvent\<close> stands for every type the switch of
  \<open>messageEventHandler\<close> has no case for.
\<close>

datatype server_message =
  AddMessage "message nullable"
| OnCompletion "message nullable"
| OnLoading
| NewConversation
| StopGeneration
| OtherEvent

subsection \<open>The state\<close>

record chat_state =
  generating :: bool
  stop :: bool
  editorRef :: "editor option"
  isLoading :: bool
  messages :: "message list option"
  completion :: "message nullable"
  posted :: "client_message list"
  hook_calls :: "hook_call list"
  timers :: "timer list"

text \<open>The state of the first render.\<close>

definition initial_state :: chat_state where
  "initial_state =
     \<lparr>generating = False, stop = False, editorRef = None, isLoading = False,
      messages = None, completion = Undefined, posted = [], hook_calls = [], timers = []\<rparr>"

text \<open>
  How a call of a handler ends: it returns, or it throws; either way it leaves a
  state.
\<close>

datatype run = Returned chat_state | Threw error chat_state

fun state_of :: "run \<Rightarrow> chat_state" where
  "state_of (Returned s) = s"
| "state_of (Threw e s) = s"

definition postMessage :: "client_message \<Rightarrow> chat_state \<Rightarrow> chat_state" where
  "postMessage m s = s\<lparr>posted := posted s @ [m]\<rparr>"

definition setTimeout :: "timer_action \<Rightarrow> nat \<Rightarrow> chat_state \<Rightarrow> chat_state" where
  "setTimeout a ms s = s\<lparr>timers := timers s @ [\<lparr>delay = ms, action = a\<rparr>]\<rparr>"

text \<open>\<open>{ ...conversation, messages: ms }\<close>; spreading \<open>undefined\<close> adds no field.\<close>

definition with_messages :: "conversation option \<Rightarrow> message list \<Rightarrow> conversation" where
  "with_messages conv ms =
     (case conv of
        None \<Rightarrow> \<lparr>conv_id = None, title = None, conv_messages = Some ms\<rparr>
      | Some c \<Rightarrow> c\<lparr>conv_messages := Some ms\<rparr>)"

definition saveLastConversation :: "conversation \<Rightarrow> chat_state \<Rightarrow> chat_state" where
  "saveLastConversation c s = s\<lparr>hook_calls := hook_calls s @ [SaveLastConversation c]\<rparr>"

definition setActiveConversation :: "conversation option \<Rightarrow> chat_state \<Rightarrow> chat_state" where
  "setActiveConversation c s = s\<lparr>hook_calls := hook_calls s @ [SetActiveConversation c]\<rparr>"

text \<open>What a timer does to the state when it fires.\<close>

fun fire :: "timer_action \<Rightarrow> chat_state \<Rightarrow> chat_state" where
  "fire FocusEditorAndResetStop s = s\<lparr>stop := False\<rparr>"
| "fire ResetStop s = s\<lparr>stop := False\<rparr>"
| "fire FocusChat s = s"

subsection \<open>Arrays and strings of JavaScript\<close>

text \<open>\<open>prev || []\<close> for an array that may be undefined.\<close>

definition or_empty :: "'a list option \<Rightarrow> 'a list" where
  "or_empty prev = (case prev of None \<Rightarrow> [] | Some xs \<Rightarrow> xs)"

text \<open>\<open>Array.prototype.findIndex\<close>: the first index whose element passes, or \<open>-1\<close>.\<close>

fun findIndex :: "('a \<Rightarrow> bool) \<Rightarrow> 'a list \<Rightarrow> int" where
  "findIndex P [] = - 1"
| "findIndex P (x # xs) =
     (if P x then 0 else (let i = findIndex P xs in if i = - 1 then - 1 else i + 1))"

text \<open>
  \<open>Array.prototype.slice(start, end)\<close>: a negative index counts from the end, and
  both are clamped to the array.
\<close>

definition relative_index :: "int \<Rightarrow> nat \<Rightarrow> nat" where
  "relative_index i len = (if i < 0 then nat (max (int len + i) 0) else min (nat i) len)"

definition slice :: "'a list \<Rightarrow> int \<Rightarrow> int \<Rightarrow> 'a list" where
  "slice xs start fin =
     (let k = relative_index start (length xs); final = relative_index fin (length xs)
      in take (final - k) (drop k xs))"


text \<open>
  White space and line terminators of \<open>String.prototype.trim\<close> up to U+00FF: TAB, LF,
  VT, FF, CR, SP and NBSP.
\<close>

definition is_white_space :: "char \<Rightarrow> bool" where
  "is_white_space c = (c \<in> {CHR 0x09, CHR 0x0A, CHR 0x0B, CHR 0x0C, CHR 0x0D, CHR 0x20, CHR 0xA0})"


definition trim :: "string \<Rightarrow> string" where
  "trim s = rev (dropWhile is_white_space (rev (dropWhile is_white_space s)))"

text \<open>\<open>String.prototype.split\<close> with a separator of one code unit: never empty.\<close>

fun split_on :: "char \<Rightarrow> string \<Rightarrow> string list" where
  "split_on sep [] = [[]]"
| "split_on sep (c # cs) =
     (if c = sep then [] # split_on sep cs
      else (case split_on sep cs of [] \<Rightarrow> [[c]] | seg # segs \<Rightarrow> (c # seg) # segs))"

text \<open>\<open>Array.prototype.pop\<close> as an expression: the last element, \<open>undefined\<close> of \<open>[]\<close>.\<close>

definition pop :: "'a list \<Rightarrow> 'a option" where
  "pop xs = (if xs = [] then None else Some (last xs))"

text \<open>\<open>String.prototype.indexOf\<close>: the position of the first occurrence, if any.\<close>

fun indexOf :: "string \<Rightarrow> string \<Rightarrow> nat option" where
  "indexOf [] pat = (if pat = [] then Some 0 else None)"
| "indexOf (c # cs) pat =
     (if prefix pat (c # cs) then Some 0 else map_option Suc (indexOf cs pat))"

text \<open>
  \<open>GetSubstitution\<close> of ECMAScript for a string pattern, which has no captures: in the
  replacement text \<open>$$\<close> stands for \<open>$\<close>, \<open>$&\<close> for the matched text, \<open>$`\<close> for the
  text before the match and \<open>$'\<close> for the text after it. A \<open>$\<close> before anything else
  (digits and \<open><\<close> too, as there is no capture to name) stands for itself.
\<close>

fun get_substitution :: "string \<Rightarrow> string \<Rightarrow> string \<Rightarrow> string \<Rightarrow> string" where
  "get_substitution matched preceding following [] = []"
| "get_substitution matched preceding following [c] = [c]"
| "get_substitution matched preceding following (c # d # r) =
     (if c = CHR ''$'' \<and> d = CHR ''$'' then CHR ''$'' # get_substitution matched preceding following r
      else if c = CHR ''$'' \<and> d = CHR ''&'' then matched @ get_substitution matched preceding following r
      else if c = CHR ''$'' \<and> d = CHR 0x60 then preceding @ get_substitution matched preceding following r
      else if c = CHR ''$'' \<and> d = CHR 0x27 then following @ get_substitution matched preceding following r
      else c # get_substitution matched preceding following (d # r))"

text \<open>
  \<open>ToString\<close> of a search value that is a string, \<open>null\<close> or \<open>undefined\<close>, which
  \<open>replace\<close> applies to its first argument.
\<close>

fun search_string :: "string nullable \<Rightarrow> string" where
  "search_string (Val s) = s"
| "search_string Null = ''null''"
| "search_string Undefined = ''undefined''"

text \<open>
  \<open>String.prototype.replace\<close> with a string pattern: the first occurrence only.
\<close>

definition replace :: "string \<Rightarrow> string \<Rightarrow> string \<Rightarrow> string" where
  "replace str pat replacement =
     (case indexOf str pat of
        None \<Rightarrow> str
      | Some pos \<Rightarrow>
          (let preceding = take pos str; following = drop (pos + length pat) str
           in preceding @ get_substitution pat preceding following replacement @ following))"

subsection \<open>Mentions\<close>

text \<open>
  \<open>getMentions\<close>: every child of type \<open>mention\<close> with attributes, of every top-level
  node of type \<open>paragraph\<close> whose content is an array, in document order. The name is
  \<open>label || id.split("/").pop() || ""\<close>: when the label is falsy the id is split, which
  throws a \<open>TypeError\<close> when the id is \<open>null\<close> or \<open>undefined\<close>. The throw ends the
  whole traversal.
\<close>

definition mention_name :: "attrs \<Rightarrow> error + string" where
  "mention_name a =
     (if truthy (label a) then Inr (the (label a))
      else (case attr_id a of
              Val i \<Rightarrow>
                (let seg = pop (split_on CHR ''/'' i)
                 in Inr (if truthy seg then the seg else []))
            | _ \<Rightarrow> Inl TypeError))"

text \<open>\<open>forEach\<close> with a callback that pushes to one array and may throw.\<close>

fun for_each :: "('a \<Rightarrow> error + 'b list) \<Rightarrow> 'a list \<Rightarrow> error + 'b list" where
  "for_each f [] = Inr []"
| "for_each f (x # xs) =
     (case f x of
        Inl e \<Rightarrow> Inl e
      | Inr ys \<Rightarrow> (case for_each f xs of Inl e \<Rightarrow> Inl e | Inr zs \<Rightarrow> Inr (ys @ zs)))"

definition mentions_of_inner :: "node \<Rightarrow> error + mention list" where
  "mentions_of_inner innerNode =
     (case node_attrs innerNode of
        Some a \<Rightarrow>
          (if node_type innerNode = Some ''mention''
           then (case mention_name a of
                   Inl e \<Rightarrow> Inl e
                 | Inr nm \<Rightarrow> Inr [\<lparr>name = nm, path = attr_id a\<rparr>])
           else Inr [])
      | None \<Rightarrow> Inr [])"

definition mentions_of_node :: "node \<Rightarrow> error + mention list" where
  "mentions_of_node n =
     (case node_content n of
        Some inner \<Rightarrow>
          (if node_type n = Some ''paragraph'' then for_each mentions_of_inner inner else Inr [])
      | None \<Rightarrow> Inr [])"

definition getMentions :: "editor option \<Rightarrow> error + mention list" where
  "getMentions ed =
     (case ed of
        None \<Rightarrow> Inr []
      | Some e \<Rightarrow>
          (case editor_content e of
             None \<Rightarrow> Inr []
           | Some nodes \<Rightarrow> for_each mentions_of_node nodes))"

text \<open>\<open>replaceMentionsInText\<close>: \<open>mentions.reduce\<close> from the text, left to right.\<close>

definition replaceMentionsInText :: "string \<Rightarrow> mention list \<Rightarrow> string" where
  "replaceMentionsInText txt mentions =
     foldl (\<lambda>result m. replace result (search_string (path m)) (CHR ''@'' # name m)) txt mentions"

subsection \<open>The handlers\<close>

text \<open>
  \<open>handleAddMessage\<close>. Without data it clears three fields and returns. With data
  the updater of \<open>setMessages\<close> replaces the first message with the same id when the
  id is truthy and found (with \<open>prev\<close> undefined, \<open>existingIndex\<close> is undefined, which
  differs from \<open>-1\<close>, and the data is stored at index \<open>0\<close> of the empty copy), and
  appends otherwise; either way it saves the new list.
\<close>

definition addMessageUpdater :: "message \<Rightarrow> message list option \<Rightarrow> message list" where
  "addMessageUpdater d prev =
     (let existingIndex = map_option (findIndex (\<lambda>m. msg_id m = msg_id d)) prev
      in if truthy (msg_id d) \<and> existingIndex \<noteq> Some (- 1)
         then (case prev of
                 None \<Rightarrow> [d]
               | Some ms \<Rightarrow> ms[nat (the existingIndex) := d])
         else or_empty prev @ [d])"

definition handleAddMessage ::
  "conversation option \<Rightarrow> message nullable \<Rightarrow> chat_state \<Rightarrow> chat_state" where
  "handleAddMessage conv data s =
     (case data of
        Val d \<Rightarrow>
          (let updated = addMessageUpdater d (messages s);
               s1 = saveLastConversation (with_messages conv updated) (s\<lparr>messages := Some updated\<rparr>);
               s2 = setTimeout FocusEditorAndResetStop 200 s1
           in s2\<lparr>completion := Null, isLoading := False\<rparr>)
      | _ \<Rightarrow> s\<lparr>completion := Null, isLoading := False, generating := False\<rparr>)"

definition handleCompletionMessage :: "message nullable \<Rightarrow> chat_state \<Rightarrow> chat_state" where
  "handleCompletionMessage data s = s\<lparr>completion := data\<rparr>"

definition handleLoadingMessage :: "chat_state \<Rightarrow> chat_state" where
  "handleLoadingMessage s = s\<lparr>isLoading := True\<rparr>"

fun messageEventHandler :: "conversation option \<Rightarrow> server_message \<Rightarrow> chat_state \<Rightarrow> chat_state" where
  "messageEventHandler conv (AddMessage data) s = handleAddMessage conv data s"
| "messageEventHandler conv (OnCompletion data) s = handleCompletionMessage data s"
| "messageEventHandler conv OnLoading s = handleLoadingMessage s"
| "messageEventHandler conv NewConversation s =
     setTimeout ResetStop 1000
       ((setActiveConversation None (s\<lparr>messages := Some [], completion := Null\<rparr>))
          \<lparr>generating := False, isLoading := False\<rparr>)"
| "messageEventHandler conv StopGeneration s =
     setTimeout FocusChat 200
       (s\<lparr>isLoading := False, completion := Null, stop := False, generating := False\<rparr>)"
| "messageEventHandler conv OtherEvent s = s"



definition clearEditor :: "chat_state \<Rightarrow> chat_state" where
  "clearEditor s = s\<lparr>editorRef := map_option clearContent (editorRef s)\<rparr>"

text \<open>
  \<open>handleRegenerateMessage\<close>: sets the flag and the loading state, cuts the list at
  \<open>index\<close> and posts the rest as a chat message request, without reading the flag.
\<close>

definition handleRegenerateMessage :: "int \<Rightarrow> chat_state \<Rightarrow> chat_state" where
  "handleRegenerateMessage index s =
     (let s1 = s\<lparr>generating := True, isLoading := True\<rparr>
      in case messages s1 of
           None \<Rightarrow> s1
         | Some prev \<Rightarrow>
             (let updatedMessages = slice prev 0 index
              in (postMessage (ChatMessage updatedMessages None) s1)
                   \<lparr>messages := Some updatedMessages\<rparr>))"

text \<open>
  \<open>handleSubmitForm\<close>. \<open>input\<close> is \<open>editorRef.current?.getText().trim()\<close>: undefined
  without an editor. The handler returns at once when the input is falsy or the
  generating flag is set. Otherwise it sets the flag and then calls \<open>getMentions\<close>; a
  throw of that call ends the handler with the flag set and nothing else done.
\<close>

definition editor_input :: "chat_state \<Rightarrow> string option" where
  "editor_input s = map_option (\<lambda>e. trim (editor_text e)) (editorRef s)"

definition handleSubmitForm :: "conversation option \<Rightarrow> chat_state \<Rightarrow> run" where
  "handleSubmitForm conv s =
     (let input = editor_input s in
      if \<not> truthy input \<or> generating s then Returned s
      else
        (let s1 = s\<lparr>generating := True\<rparr>
         in case getMentions (editorRef s1) of
              Inl e \<Rightarrow> Threw e s1
            | Inr mentions \<Rightarrow>
                (let s2 = clearEditor (s1\<lparr>isLoading := True\<rparr>);
                     updatedMessages =
                       or_empty (messages s2)
                         @ [\<lparr>role = USER, content = replaceMentionsInText (the input) mentions,
                             msg_id = None\<rparr>];
                     s3 = saveLastConversation (with_messages conv updatedMessages) s2;
                     s4 = postMessage (ChatMessage updatedMessages (Some mentions)) s3
                 in Returned (s4\<lparr>messages := Some updatedMessages\<rparr>))))"

text \<open>
  A run of submit attempts with no event of the extension host between them: before
  each attempt the user may have changed what the editor holds.
\<close>

fun is_chat_message :: "client_message \<Rightarrow> bool" where
  "is_chat_message (ChatMessage ms meta) = True"
| "is_chat_message StopGenerationRequest = False"

definition submit_attempts ::
  "conversation option \<Rightarrow> chat_state \<Rightarrow> editor option list \<Rightarrow> chat_state" where
  "submit_attempts conv s eds =
     foldl (\<lambda>st ed. state_of (handleSubmitForm conv (st\<lparr>editorRef := ed\<rparr>))) s eds"


subsection \<open>The service: streaming and abort\<close>









section \<open>Properties\<close>


subsection \<open>Submitting\<close>

lemma submit_blocked:
  "editorRef s = None \<or> (\<exists>e. editorRef s = Some e \<and> trim (editor_text e) = []) \<or> generating s
   \<Longrightarrow> handleSubmitForm conv s = Returned s"
  by (auto simp: handleSubmitForm_def editor_input_def)

lemma submit_accepted:
  assumes "editorRef s = Some e" "trim (editor_text e) \<noteq> []" "\<not> generating s"
    "getMentions (Some e) = Inr ms"
  shows "handleSubmitForm conv s = Returned
     (s\<lparr>generating := True, isLoading := True, editorRef := Some (clearContent e),
       hook_calls := hook_calls s @ [SaveLastConversation (with_messages conv
          (or_empty (messages s) @ [\<lparr>role = USER,
              content = replaceMentionsInText (trim (editor_text e)) ms,
              msg_id = None\<rparr>]))],
       posted := posted s @ [ChatMessage (or_empty (messages s) @ [\<lparr>role = USER,
              content = replaceMentionsInText (trim (editor_text e)) ms,
              msg_id = None\<rparr>]) (Some ms)],
       messages := Some (or_empty (messages s) @ [\<lparr>role = USER,
              content = replaceMentionsInText (trim (editor_text e)) ms,
              msg_id = None\<rparr>])\<rparr>)"
  using assms
  by (simp add: handleSubmitForm_def editor_input_def Let_def clearEditor_def
      saveLastConversation_def postMessage_def)

lemma submit_throws:
  assumes "editorRef s = Some e" "trim (editor_text e) \<noteq> []" "\<not> generating s"
    "getMentions (Some e) = Inl err"
  shows "handleSubmitForm conv s = Threw err (s\<lparr>generating := True\<rparr>)"
  using assms by (simp add: handleSubmitForm_def editor_input_def Let_def)

lemma submit_chat_requests:
  "length (filter is_chat_message (posted (state_of (handleSubmitForm conv s))))
     = length (filter is_chat_message (posted s))
       + (if generating s then 0
          else if generating (state_of (handleSubmitForm conv s))
                  \<and> handleSubmitForm conv s = Returned (state_of (handleSubmitForm conv s)) then 1 else 0)
   \<and> (generating s \<longrightarrow> generating (state_of (handleSubmitForm conv s)))"
  by (auto simp: handleSubmitForm_def editor_input_def Let_def clearEditor_def
      saveLastConversation_def postMessage_def split: sum.splits)

lemma attempts_generating:
  "generating s \<Longrightarrow> posted (submit_attempts conv s eds) = posted s \<and> generating (submit_attempts conv s eds)"
  unfolding submit_attempts_def
proof (induction eds arbitrary: s)
  case Nil then show ?case by simp
next
  case (Cons ed eds)
  have "handleSubmitForm conv (s\<lparr>editorRef := ed\<rparr>) = Returned (s\<lparr>editorRef := ed\<rparr>)"
    using Cons.prems by (simp add: handleSubmitForm_def)
  moreover have "generating (s\<lparr>editorRef := ed\<rparr>)" using Cons.prems by simp
  ultimately show ?case using Cons.IH[of "s\<lparr>editorRef := ed\<rparr>"] by simp
qed

lemma attempts_at_most_one:
  "length (filter is_chat_message (posted (submit_attempts conv s eds)))
     \<le> length (filter is_chat_message (posted s)) + (if generating s then 0 else 1)"
proof (induction eds arbitrary: s)
  case Nil then show ?case by (simp add: submit_attempts_def)
next
  case (Cons ed eds)
  let ?t = "state_of (handleSubmitForm conv (s\<lparr>editorRef := ed\<rparr>))"
  have step: "submit_attempts conv s (ed # eds) = submit_attempts conv ?t eds"
    by (simp add: submit_attempts_def)
  show ?case
  proof (cases "generating ?t")
    case True
    then have "posted (submit_attempts conv ?t eds) = posted ?t"
      using attempts_generating by blast
    then show ?thesis
      using step submit_chat_requests[of conv "s\<lparr>editorRef := ed\<rparr>"] True by (simp split: if_splits)
  next
    case False
    then show ?thesis
      using step Cons.IH[of ?t] submit_chat_requests[of conv "s\<lparr>editorRef := ed\<rparr>"]
      by (auto split: if_splits)
  qed
qed

lemma regenerate_posts:
  "messages s = Some prev \<Longrightarrow>
     handleRegenerateMessage index s =
       s\<lparr>generating := True, isLoading := True,
         posted := posted s @ [ChatMessage (slice prev 0 index) None],
         messages := Some (slice prev 0 index)\<rparr>"
  by (simp add: handleRegenerateMessage_def Let_def postMessage_def)

text \<open>
  Claim C1, as amended. A submit attempt returns without any effect (no request
  posted, messages list and every other field as before) when there is no editor,
  when the editor text trims to the empty string, or when the generating flag is
  set. Otherwise it sets the generating flag and, when the mentions of the editor
  are collected without a throw, appends exactly one message of role \<open>user\<close> to the
  messages list and posts exactly one chat message request, which carries the new
  list and the mentions; a second attempt right after is without effect. So a run
  of submit attempts, whatever the editor holds at each, posts at most one chat
  message request as long as no event resets the flag. The flag gates
  \<open>handleSubmitForm\<close> only: \<open>handleRegenerateMessage\<close> sets it and posts a chat
  message request whether or not it was set.
\<close>

theorem submit_form:
  "(editorRef s = None \<longrightarrow> handleSubmitForm conv s = Returned s)
   \<and> (\<forall>e. editorRef s = Some e \<and> trim (editor_text e) = [] \<longrightarrow> handleSubmitForm conv s = Returned s)
   \<and> (generating s \<longrightarrow> handleSubmitForm conv s = Returned s)
   \<and> (\<forall>e. editorRef s = Some e \<and> trim (editor_text e) \<noteq> [] \<and> \<not> generating s \<longrightarrow>
        generating (state_of (handleSubmitForm conv s)))
   \<and> (\<forall>e ms. editorRef s = Some e \<and> trim (editor_text e) \<noteq> [] \<and> \<not> generating s
          \<and> getMentions (Some e) = Inr ms \<longrightarrow>
        (\<exists>s'. handleSubmitForm conv s = Returned s'
           \<and> generating s'
           \<and> messages s' = Some (or_empty (messages s) @ [\<lparr>role = USER,
                  content = replaceMentionsInText (trim (editor_text e)) ms, msg_id = None\<rparr>])
           \<and> posted s' = posted s @ [ChatMessage (or_empty (messages s) @ [\<lparr>role = USER,
                  content = replaceMentionsInText (trim (editor_text e)) ms, msg_id = None\<rparr>])
                  (Some ms)]
           \<and> handleSubmitForm conv s' = Returned s'))
   \<and> length (filter is_chat_message (posted (submit_attempts conv s eds)))
        \<le> length (filter is_chat_message (posted s)) + 1
   \<and> (\<forall>prev. messages s = Some prev \<longrightarrow>
        generating (handleRegenerateMessage index s)
        \<and> posted (handleRegenerateMessage index s)
            = posted s @ [ChatMessage (slice prev 0 index) None])"
proof -
  have blocked: "editorRef s = None \<longrightarrow> handleSubmitForm conv s = Returned s"
    "\<forall>e. editorRef s = Some e \<and> trim (editor_text e) = [] \<longrightarrow> handleSubmitForm conv s = Returned s"
    "generating s \<longrightarrow> handleSubmitForm conv s = Returned s"
    using submit_blocked[of s conv] by blast+
  have flag: "\<forall>e. editorRef s = Some e \<and> trim (editor_text e) \<noteq> [] \<and> \<not> generating s \<longrightarrow>
        generating (state_of (handleSubmitForm conv s))"
  proof (intro allI impI)
    fix e
    assume a: "editorRef s = Some e \<and> trim (editor_text e) \<noteq> [] \<and> \<not> generating s"
    show "generating (state_of (handleSubmitForm conv s))"
    proof (cases "getMentions (Some e)")
      case (Inl err)
      then show ?thesis using a submit_throws[of s e err conv] by simp
    next
      case (Inr ms)
      then show ?thesis using a submit_accepted[of s e ms conv] by simp
    qed
  qed
  have accepted: "\<forall>e ms. editorRef s = Some e \<and> trim (editor_text e) \<noteq> [] \<and> \<not> generating s
          \<and> getMentions (Some e) = Inr ms \<longrightarrow>
        (\<exists>s'. handleSubmitForm conv s = Returned s'
           \<and> generating s'
           \<and> messages s' = Some (or_empty (messages s) @ [\<lparr>role = USER,
                  content = replaceMentionsInText (trim (editor_text e)) ms, msg_id = None\<rparr>])
           \<and> posted s' = posted s @ [ChatMessage (or_empty (messages s) @ [\<lparr>role = USER,
                  content = replaceMentionsInText (trim (editor_text e)) ms, msg_id = None\<rparr>])
                  (Some ms)]
           \<and> handleSubmitForm conv s' = Returned s')"
  proof (intro allI impI)
    fix e ms
    assume a: "editorRef s = Some e \<and> trim (editor_text e) \<noteq> [] \<and> \<not> generating s
          \<and> getMentions (Some e) = Inr ms"
    define s' where "s' = state_of (handleSubmitForm conv s)"
    have eq: "handleSubmitForm conv s = Returned s'"
      using a submit_accepted[of s e ms conv] by (simp add: s'_def)
    have g: "generating s'" using a submit_accepted[of s e ms conv] by (simp add: s'_def)
    have again: "handleSubmitForm conv s' = Returned s'" using g submit_blocked by blast
    have m: "messages s' = Some (or_empty (messages s) @ [\<lparr>role = USER,
                  content = replaceMentionsInText (trim (editor_text e)) ms, msg_id = None\<rparr>])"
      and p: "posted s' = posted s @ [ChatMessage (or_empty (messages s) @ [\<lparr>role = USER,
                  content = replaceMentionsInText (trim (editor_text e)) ms, msg_id = None\<rparr>])
                  (Some ms)]"
      using a submit_accepted[of s e ms conv] by (simp_all add: s'_def)
    show "\<exists>s'. handleSubmitForm conv s = Returned s'
           \<and> generating s'
           \<and> messages s' = Some (or_empty (messages s) @ [\<lparr>role = USER,
                  content = replaceMentionsInText (trim (editor_text e)) ms, msg_id = None\<rparr>])
           \<and> posted s' = posted s @ [ChatMessage (or_empty (messages s) @ [\<lparr>role = USER,
                  content = replaceMentionsInText (trim (editor_text e)) ms, msg_id = None\<rparr>])
                  (Some ms)]
           \<and> handleSubmitForm conv s' = Returned s'"
      using eq g m p again by blast
  qed
  have bound: "length (filter is_chat_message (posted (submit_attempts conv s eds)))
        \<le> length (filter is_chat_message (posted s)) + 1"
    using attempts_at_most_one[of conv s eds] by (simp split: if_splits)
  have regen: "\<forall>prev. messages s = Some prev \<longrightarrow>
        generating (handleRegenerateMessage index s)
        \<and> posted (handleRegenerateMessage index s)
            = posted s @ [ChatMessage (slice prev 0 index) None]"
    using regenerate_posts[of s _ index] by simp
  show ?thesis using blocked flag accepted bound regen by blast
qed

theorem submit_form_witness:
  "handleSubmitForm None initial_state = Returned initial_state
   \<and> handleSubmitForm None (initial_state\<lparr>editorRef := Some \<lparr>editor_text = ''  '', editor_content = None\<rparr>\<rparr>)
       = Returned (initial_state\<lparr>editorRef := Some \<lparr>editor_text = ''  '', editor_content = None\<rparr>\<rparr>)
   \<and> handleSubmitForm None (initial_state\<lparr>generating := True, editorRef := Some \<lparr>editor_text = '' hi '', editor_content = None\<rparr>\<rparr>)
       = Returned (initial_state\<lparr>generating := True, editorRef := Some \<lparr>editor_text = '' hi '', editor_content = None\<rparr>\<rparr>)
   \<and> getMentions (Some \<lparr>editor_text = '' hi '', editor_content = None\<rparr>) = Inr []
   \<and> generating (state_of (handleSubmitForm None (initial_state\<lparr>editorRef := Some \<lparr>editor_text = '' hi '', editor_content = None\<rparr>\<rparr>)))
   \<and> messages (state_of (handleSubmitForm None (initial_state\<lparr>editorRef := Some \<lparr>editor_text = '' hi '', editor_content = None\<rparr>\<rparr>)))
       = Some [\<lparr>role = ''user'', content = ''hi'', msg_id = None\<rparr>]
   \<and> posted (state_of (handleSubmitForm None (initial_state\<lparr>editorRef := Some \<lparr>editor_text = '' hi '', editor_content = None\<rparr>\<rparr>)))
       = [ChatMessage [\<lparr>role = ''user'', content = ''hi'', msg_id = None\<rparr>] (Some [])]
   \<and> length (filter is_chat_message (posted (submit_attempts None initial_state
         [Some \<lparr>editor_text = '' hi '', editor_content = None\<rparr>, Some \<lparr>editor_text = ''again'', editor_content = None\<rparr>]))) \<le> 1
   \<and> posted (handleRegenerateMessage 1
         (initial_state\<lparr>messages := Some [\<lparr>role = ''user'', content = ''q'', msg_id = None\<rparr>,
                                           \<lparr>role = ''assistant'', content = ''a'', msg_id = None\<rparr>]\<rparr>))
       = [ChatMessage [\<lparr>role = ''user'', content = ''q'', msg_id = None\<rparr>] None]"
  using submit_form[of initial_state None "[Some \<lparr>editor_text = '' hi '', editor_content = None\<rparr>, Some \<lparr>editor_text = ''again'', editor_content = None\<rparr>]" 0]
    submit_form[of "initial_state\<lparr>editorRef := Some \<lparr>editor_text = ''  '', editor_content = None\<rparr>\<rparr>" None "[]" 0]
    submit_form[of "initial_state\<lparr>generating := True, editorRef := Some \<lparr>editor_text = '' hi '', editor_content = None\<rparr>\<rparr>" None "[]" 0]
    submit_form[of "initial_state\<lparr>editorRef := Some \<lparr>editor_text = '' hi '', editor_content = None\<rparr>\<rparr>" None "[]" 0]
    submit_form[of "initial_state\<lparr>messages := Some [\<lparr>role = ''user'', content = ''q'', msg_id = None\<rparr>,
                                           \<lparr>role = ''assistant'', content = ''a'', msg_id = None\<rparr>]\<rparr>" None "[]" 1]
  by (simp add: initial_state_def trim_def is_white_space_def USER_def or_empty_def
      getMentions_def replaceMentionsInText_def slice_def relative_index_def Let_def
      handleSubmitForm_def editor_input_def clearEditor_def saveLastConversation_def
      postMessage_def submit_attempts_def)

text \<open>
  The claim as stated concludes that at most one generation is active per chat
  instance. That fails: while the flag is set by a submit, \<open>handleRegenerateMessage\<close>
  posts a second chat message request. The last conjunct shows what the amended
  claim leaves aside: a mention node with no label and a \<open>null\<close> id makes
  \<open>getMentions\<close> throw after the flag was set, so that nothing is appended or
  posted and the flag stays set.
\<close>

theorem submit_form_counterexample:
  "posted (handleRegenerateMessage 1 (state_of (handleSubmitForm None
       (initial_state\<lparr>editorRef := Some \<lparr>editor_text = ''q2'', editor_content = None\<rparr>,
           messages := Some [\<lparr>role = ''user'', content = ''q1'', msg_id = None\<rparr>,
                             \<lparr>role = ''assistant'', content = ''a1'', msg_id = None\<rparr>]\<rparr>))))
     = [ChatMessage [\<lparr>role = ''user'', content = ''q1'', msg_id = None\<rparr>,
                     \<lparr>role = ''assistant'', content = ''a1'', msg_id = None\<rparr>,
                     \<lparr>role = ''user'', content = ''q2'', msg_id = None\<rparr>] (Some []),
        ChatMessage [\<lparr>role = ''user'', content = ''q1'', msg_id = None\<rparr>] None]
   \<and> generating (state_of (handleSubmitForm None
       (initial_state\<lparr>editorRef := Some \<lparr>editor_text = ''q2'', editor_content = None\<rparr>,
           messages := Some [\<lparr>role = ''user'', content = ''q1'', msg_id = None\<rparr>,
                             \<lparr>role = ''assistant'', content = ''a1'', msg_id = None\<rparr>]\<rparr>)))
   \<and> handleSubmitForm None
       (initial_state\<lparr>editorRef := Some \<lparr>editor_text = ''hi '',
          editor_content = Some [Node (Some ''paragraph'') None
            (Some [Node (Some ''text'') None None,
                   Node (Some ''mention'') (Some \<lparr>label = None, attr_id = Null\<rparr>) None])]\<rparr>\<rparr>)
     = Threw TypeError
       (initial_state\<lparr>generating := True, editorRef := Some \<lparr>editor_text = ''hi '',
          editor_content = Some [Node (Some ''paragraph'') None
            (Some [Node (Some ''text'') None None,
                   Node (Some ''mention'') (Some \<lparr>label = None, attr_id = Null\<rparr>) None])]\<rparr>\<rparr>)"
  by (simp add: initial_state_def trim_def is_white_space_def USER_def or_empty_def
      getMentions_def mentions_of_node_def mentions_of_inner_def mention_name_def
      replaceMentionsInText_def slice_def relative_index_def Let_def
      handleSubmitForm_def editor_input_def clearEditor_def saveLastConversation_def
      postMessage_def handleRegenerateMessage_def)

subsection \<open>Events that end or reset a generation\<close>

text \<open>
  Claim C2. Processing a \<open>StopGeneration\<close> event clears the loading flag, sets the
  partial completion to \<open>null\<close> and resets the stop flag and the generating flag, from
  every state (so however the generation ended); the messages list is left as it
  was, and so are the saved conversations and the posted requests.
\<close>

theorem stop_generation_event:
  "isLoading (messageEventHandler conv StopGeneration s) = False
   \<and> completion (messageEventHandler conv StopGeneration s) = Null
   \<and> stop (messageEventHandler conv StopGeneration s) = False
   \<and> generating (messageEventHandler conv StopGeneration s) = False
   \<and> messages (messageEventHandler conv StopGeneration s) = messages s
   \<and> hook_calls (messageEventHandler conv StopGeneration s) = hook_calls s
   \<and> posted (messageEventHandler conv StopGeneration s) = posted s"
  by (simp add: setTimeout_def)

text \<open>
  Claim C4. Processing a \<open>NewConversation\<close> event, from every state, makes the
  messages list empty and the partial completion \<open>null\<close> and clears the active
  conversation: the one call it makes to the conversation history is
  \<open>setActiveConversation(undefined)\<close>, so nothing is saved. It posts nothing.
\<close>

theorem new_conversation_event:
  "messages (messageEventHandler conv NewConversation s) = Some []
   \<and> completion (messageEventHandler conv NewConversation s) = Null
   \<and> hook_calls (messageEventHandler conv NewConversation s)
       = hook_calls s @ [SetActiveConversation None]
   \<and> posted (messageEventHandler conv NewConversation s) = posted s
   \<and> generating (messageEventHandler conv NewConversation s) = False
   \<and> isLoading (messageEventHandler conv NewConversation s) = False"
  by (simp add: setTimeout_def setActiveConversation_def)

subsection \<open>Progress events\<close>

text \<open>
  Claim C5. An \<open>OnCompletion\<close> event replaces the partial completion by the data of
  the event, so that processing the same event twice gives the state that
  processing it once gives; it changes neither the messages list nor the saved
  conversations, and posts nothing.
\<close>

theorem completion_event:
  "completion (messageEventHandler conv (OnCompletion data) s) = data
   \<and> messageEventHandler conv (OnCompletion data) (messageEventHandler conv (OnCompletion data) s)
       = messageEventHandler conv (OnCompletion data) s
   \<and> messages (messageEventHandler conv (OnCompletion data) s) = messages s
   \<and> hook_calls (messageEventHandler conv (OnCompletion data) s) = hook_calls s
   \<and> posted (messageEventHandler conv (OnCompletion data) s) = posted s"
  by (simp add: handleCompletionMessage_def)

subsection \<open>Added messages\<close>

text \<open>
  Claim C9. An \<open>AddMessage\<close> event without data (\<open>undefined\<close> or \<open>null\<close>) changes
  three fields only: the partial completion becomes \<open>null\<close>, and the loading flag
  and the generating flag are cleared. The messages list and the saved
  conversations stay as they were.
\<close>

theorem add_message_without_data:
  "messageEventHandler conv (AddMessage Undefined) s
     = s\<lparr>completion := Null, isLoading := False, generating := False\<rparr>
   \<and> messageEventHandler conv (AddMessage Null) s
     = s\<lparr>completion := Null, isLoading := False, generating := False\<rparr>
   \<and> messages (messageEventHandler conv (AddMessage Undefined) s) = messages s
   \<and> messages (messageEventHandler conv (AddMessage Null) s) = messages s
   \<and> hook_calls (messageEventHandler conv (AddMessage Undefined) s) = hook_calls s
   \<and> hook_calls (messageEventHandler conv (AddMessage Null) s) = hook_calls s"
  by (simp add: handleAddMessage_def)









subsection \<open>Deleting messages\<close>






subsection \<open>Stopping a generation\<close>
















subsection \<open>Mentions in the submitted text\<close>












lemma indexOf_Some:
  "indexOf str pat = Some pos \<Longrightarrow>
     pos \<le> length str \<and> prefix pat (drop pos str) \<and> (\<forall>q < pos. \<not> prefix pat (drop q str))"
proof (induction str arbitrary: pos)
  case Nil then show ?case by (auto split: if_splits)
next
  case (Cons c cs)
  show ?case
  proof (cases "prefix pat (c # cs)")
    case True
    with Cons.prems show ?thesis by simp
  next
    case False
    with Cons.prems obtain p where p: "indexOf cs pat = Some p" "pos = Suc p" by auto
    show ?thesis using Cons.IH[OF p(1)] p(2) False by (auto simp: less_Suc_eq_0_disj)
  qed
qed

lemma indexOf_split:
  assumes "indexOf str pat = Some pos"
  shows "str = take pos str @ pat @ drop (pos + length pat) str"
proof -
  from indexOf_Some[OF assms] obtain rest where r: "drop pos str = pat @ rest"
    by (auto simp: prefix_def)
  then have "drop (length pat) (drop pos str) = rest" by simp
  then have "drop (pos + length pat) str = rest" by (simp add: add.commute)
  with r have "pat @ drop (pos + length pat) str = drop pos str" by simp
  then show ?thesis by (metis append_take_drop_id)
qed

lemma indexOf_None: "indexOf str pat = None \<Longrightarrow> replace str pat r = str"
  by (simp add: replace_def)

lemma get_substitution_plain:
  "CHR ''$'' \<notin> set r \<Longrightarrow> get_substitution matched preceding following r = r"
  by (induction matched preceding following r rule: get_substitution.induct) auto

lemma replace_plain:
  assumes "indexOf str pat = Some pos" "CHR ''$'' \<notin> set r"
  shows "replace str pat r = take pos str @ r @ drop (pos + length pat) str"
  using assms by (simp add: replace_def Let_def get_substitution_plain)

lemma replaceMentions_fixed:
  "\<forall>m \<in> set ms. indexOf u (search_string (path m)) = None \<Longrightarrow> replaceMentionsInText u ms = u"
  by (induction ms) (simp_all add: replaceMentionsInText_def indexOf_None)




lemma replace_fixed_iff:
  assumes "CHR ''$'' \<notin> set r"
  shows "replace u pat r = u \<longleftrightarrow> indexOf u pat = None \<or> pat = r"
proof (cases "indexOf u pat")
  case None then show ?thesis by (simp add: indexOf_None)
next
  case (Some pos)
  have r: "replace u pat r = take pos u @ r @ drop (pos + length pat) u"
    using replace_plain[OF Some assms] .
  have u: "u = take pos u @ pat @ drop (pos + length pat) u"
    using indexOf_split[OF Some] .
  have "take pos u @ r @ drop (pos + length pat) u = take pos u @ pat @ drop (pos + length pat) u
          \<longleftrightarrow> r = pat"
    by simp
  then have "replace u pat r = u \<longleftrightarrow> r = pat" using r u by metis
  then show ?thesis using Some by auto
qed

text \<open>
  Claim C7, as amended. A second pass of \<open>replaceMentionsInText\<close> with the same
  mention list leaves cleaned text as it is whenever no path of the list occurs in
  the cleaned text. For a list of one mention (with a name without \<open>$\<close>) that is
  exact: the second pass leaves the cleaned text as it is if and only if the path
  does not occur in it, or the path is \<open>@\<close> followed by the name.
\<close>

theorem replace_mentions_twice:
  "((\<forall>m \<in> set ms. indexOf (replaceMentionsInText txt ms) (search_string (path m)) = None) \<longrightarrow>
      replaceMentionsInText (replaceMentionsInText txt ms) ms = replaceMentionsInText txt ms)
   \<and> (CHR ''$'' \<notin> set (name m) \<longrightarrow>
        (replaceMentionsInText (replaceMentionsInText txt [m]) [m] = replaceMentionsInText txt [m])
          = (indexOf (replaceMentionsInText txt [m]) (search_string (path m)) = None
             \<or> search_string (path m) = CHR ''@'' # name m))"
proof -
  have a: "(\<forall>m \<in> set ms. indexOf (replaceMentionsInText txt ms) (search_string (path m)) = None) \<longrightarrow>
      replaceMentionsInText (replaceMentionsInText txt ms) ms = replaceMentionsInText txt ms"
    using replaceMentions_fixed by blast
  have b: "CHR ''$'' \<notin> set (name m) \<longrightarrow>
        (replaceMentionsInText (replaceMentionsInText txt [m]) [m] = replaceMentionsInText txt [m])
          = (indexOf (replaceMentionsInText txt [m]) (search_string (path m)) = None
             \<or> search_string (path m) = CHR ''@'' # name m)"
  proof
    assume "CHR ''$'' \<notin> set (name m)"
    then have d: "CHR ''$'' \<notin> set (CHR ''@'' # name m)" by simp
    have one: "replaceMentionsInText v [m] = replace v (search_string (path m)) (CHR ''@'' # name m)" for v
      by (simp add: replaceMentionsInText_def)
    show "(replaceMentionsInText (replaceMentionsInText txt [m]) [m] = replaceMentionsInText txt [m])
          = (indexOf (replaceMentionsInText txt [m]) (search_string (path m)) = None
             \<or> search_string (path m) = CHR ''@'' # name m)"
      using replace_fixed_iff[OF d, of "replaceMentionsInText txt [m]" "search_string (path m)"]
      by (simp only: one)
  qed
  show ?thesis using a b by blast
qed

theorem replace_mentions_twice_witness:
  "indexOf (replaceMentionsInText ''look at src/a.ts'' [\<lparr>name = ''a.ts'', path = Val ''src/a.ts''\<rparr>]) ''src/a.ts'' = None
   \<and> replaceMentionsInText ''look at src/a.ts'' [\<lparr>name = ''a.ts'', path = Val ''src/a.ts''\<rparr>] = ''look at @a.ts''
   \<and> replaceMentionsInText (replaceMentionsInText ''look at src/a.ts'' [\<lparr>name = ''a.ts'', path = Val ''src/a.ts''\<rparr>])
        [\<lparr>name = ''a.ts'', path = Val ''src/a.ts''\<rparr>] = ''look at @a.ts''
   \<and> CHR ''$'' \<notin> set ''a.ts''"
  using replace_mentions_twice[of "[\<lparr>name = ''a.ts'', path = Val ''src/a.ts''\<rparr>]" "''look at src/a.ts''"
      "\<lparr>name = ''a.ts'', path = Val ''src/a.ts''\<rparr>"]
  by (simp add: replaceMentionsInText_def replace_def)

text \<open>
  The claim as stated fails when a name holds the path: a file at the root of the
  workspace, mentioned without a label, has its path as its name, and every pass
  adds one more \<open>@\<close>.
\<close>

theorem replace_mentions_twice_counterexample:
  "replaceMentionsInText ''open README.md'' [\<lparr>name = ''README.md'', path = Val ''README.md''\<rparr>]
     = ''open @README.md''
   \<and> replaceMentionsInText
       (replaceMentionsInText ''open README.md'' [\<lparr>name = ''README.md'', path = Val ''README.md''\<rparr>])
       [\<lparr>name = ''README.md'', path = Val ''README.md''\<rparr>]
     = ''open @@README.md''"
  by (simp add: replaceMentionsInText_def replace_def)

end
